theory Spec2Isabelle
  imports Main "HOL-Library.Word"
begin

section \<open>Data model\<close>

text \<open>
  The cluster status updater of \<^verbatim>\<open>controllers/flinksessioncluster_updater.go\<close>.
  Go's \<^verbatim>\<open>int32\<close> counters are 32-bit words compared as signed values; a Go pointer
  that may be \<^verbatim>\<open>nil\<close> is an \<open>option\<close>; a struct is a record.
\<close>

type_synonym int32 = "32 word"

text \<open>
  The observed Kubernetes objects (\<^verbatim>\<open>appsv1.Deployment\<close>, \<^verbatim>\<open>corev1.Service\<close>,
  \<^verbatim>\<open>batchv1.Job\<close>) with the fields the updater reads:
  \<^verbatim>\<open>ObjectMeta.Name\<close>, and the counters of \<^verbatim>\<open>Status\<close>. A deployment also has
  the desired number of replicas of its spec, \<^verbatim>\<open>Spec.Replicas\<close> (a pointer), which the
  updater does not read: \<^verbatim>\<open>Status.Replicas\<close> is the number of pods that the deployment
  reports to exist.
\<close>

record Deployment =
  deployment_Name :: string
  deployment_Spec_Replicas :: "int32 option"
  deployment_Status_Replicas :: int32
  deployment_Status_AvailableReplicas :: int32
  deployment_Status_ReadyReplicas :: int32

record Service =
  service_Name :: string

record Job =
  job_Name :: string
  job_Active :: int32
  job_Failed :: int32
  job_Succeeded :: int32

text \<open>
  The status types of \<^verbatim>\<open>flinkoperatorv1alpha1\<close>. The updater writes
  \<^verbatim>\<open>status.Components.JobManagerDeployment.Name\<close> on a fresh status and compares the
  three mandatory slots with \<^verbatim>\<open>!=\<close>, so they are struct values; the job slot is
  allocated with \<^verbatim>\<open>new\<close> and dereferenced, so it is a pointer.
\<close>

record ComponentStatus =
  Name :: string
  State :: string

record JobStatus =
  jobStatus_Name :: string
  jobStatus_State :: string

record ComponentsStatus =
  JobManagerDeployment :: ComponentStatus
  JobManagerService :: ComponentStatus
  TaskManagerDeployment :: ComponentStatus
  Job :: "JobStatus option"

record FlinkSessionClusterStatus =
  status_State :: string
  Components :: ComponentsStatus
  LastUpdateTime :: string

text \<open>
  The parent resource. Its identity (type and object metadata) and its spec are not
  read by the updater: they are the type parameters \<open>'m\<close> and \<open>'s\<close>.
\<close>

record ('m, 's) FlinkSessionCluster =
  ObjectMeta :: 'm
  Spec :: 's
  Status :: FlinkSessionClusterStatus

record ('m, 's) ObservedClusterState =
  cluster :: "('m, 's) FlinkSessionCluster option"
  jmDeployment :: "Deployment option"
  jmService :: "Service option"
  tmDeployment :: "Deployment option"
  job :: "Job option"

text \<open>
  The API client: \<open>Update_result\<close> is the answer of the API server to an update call
  (\<open>None\<close> is Go's \<^verbatim>\<open>nil\<close> error), \<open>Update_calls\<close> the calls issued so far, each
  with its context and the object sent.
\<close>

record ('m, 's, 'c) Client =
  Update_result :: "'c \<Rightarrow> ('m, 's) FlinkSessionCluster \<Rightarrow> string option"
  Update_calls :: "('c \<times> ('m, 's) FlinkSessionCluster) list"

text \<open>
  \<^verbatim>\<open>_ClusterStatusUpdater\<close>. The logger is the list of the messages written so far
  (the key/value pairs of a log line are left out).
\<close>

record ('m, 's, 'c) ClusterStatusUpdater =
  k8sClient :: "('m, 's, 'c) Client"
  updater_context :: 'c
  log :: "string list"
  observedState :: "('m, 's) ObservedClusterState"

text \<open>What a method does other than return: a nil pointer dereference panics.\<close>

datatype fault = NilDereference

subsection \<open>Constants and helpers that are not in the updater's file\<close>

text \<open>Modelled from the spec: \<^verbatim>\<open>flinkoperatorv1alpha1.ClusterState.Reconciling\<close>, declared in the
  API package: the overall state \<open>Reconciling\<close>.\<close>

definition ClusterState_Reconciling :: string where
  "ClusterState_Reconciling = ''Reconciling''"

text \<open>Modelled from the spec: \<^verbatim>\<open>flinkoperatorv1alpha1.ClusterState.Running\<close>, declared in the
  API package: the overall state \<open>Running\<close>.\<close>

definition ClusterState_Running :: string where
  "ClusterState_Running = ''Running''"

text \<open>Modelled from the spec: \<^verbatim>\<open>flinkoperatorv1alpha1.ClusterComponentState.NotReady\<close>, declared in the
  API package: the state \<open>NotReady\<close> of a component.\<close>

definition ClusterComponentState_NotReady :: string where
  "ClusterComponentState_NotReady = ''NotReady''"

text \<open>Modelled from the spec: \<^verbatim>\<open>flinkoperatorv1alpha1.ClusterComponentState.Ready\<close>, declared in the
  API package: the state \<open>Ready\<close> of a component.\<close>

definition ClusterComponentState_Ready :: string where
  "ClusterComponentState_Ready = ''Ready''"

text \<open>Modelled from the spec: \<^verbatim>\<open>flinkoperatorv1alpha1.JobState.Running\<close>, declared in the
  API package: the state \<open>Running\<close> of a job.\<close>

definition JobState_Running :: string where
  "JobState_Running = ''Running''"

text \<open>Modelled from the spec: \<^verbatim>\<open>flinkoperatorv1alpha1.JobState.Failed\<close>, declared in the
  API package: the state \<open>Failed\<close> of a job.\<close>

definition JobState_Failed :: string where
  "JobState_Failed = ''Failed''"

text \<open>Modelled from the spec: \<^verbatim>\<open>flinkoperatorv1alpha1.JobState.Succeeded\<close>, declared in the
  API package: the state \<open>Succeeded\<close> of a job.\<close>

definition JobState_Succeeded :: string where
  "JobState_Succeeded = ''Succeeded''"

text \<open>Modelled from the spec: \<^verbatim>\<open>flinkoperatorv1alpha1.JobState.Unknown\<close>, declared in the
  API package: the state \<open>Unknown\<close> of a job.\<close>

definition JobState_Unknown :: string where
  "JobState_Unknown = ''Unknown''"

text \<open>Modelled from the spec: the generated \<^verbatim>\<open>DeepCopyInto\<close> of the status, declared in
  the API package: the copy is an independently owned value equal to the original.\<close>

definition status_DeepCopy :: "FlinkSessionClusterStatus \<Rightarrow> FlinkSessionClusterStatus" where
  "status_DeepCopy s = s"

text \<open>Modelled from the spec: the generated \<^verbatim>\<open>DeepCopyInto\<close> of the cluster, declared in
  the API package: the copy is an independently owned value equal to the original.\<close>

definition cluster_DeepCopy :: "('m, 's) FlinkSessionCluster \<Rightarrow> ('m, 's) FlinkSessionCluster" where
  "cluster_DeepCopy c = c"

text \<open>The zero values of Go, of a component slot and of a status.\<close>

definition zero_ComponentStatus :: ComponentStatus where
  "zero_ComponentStatus = \<lparr>Name = '''', State = ''''\<rparr>"

definition zero_Status :: FlinkSessionClusterStatus where
  "zero_Status =
     \<lparr>status_State = '''',
      Components = \<lparr>JobManagerDeployment = zero_ComponentStatus,
                    JobManagerService = zero_ComponentStatus,
                    TaskManagerDeployment = zero_ComponentStatus,
                    Job = None\<rparr>,
      LastUpdateTime = ''''\<rparr>"

text \<open>\<^verbatim>\<open>updater.log.Info(msg, ...)\<close>\<close>

definition Info ::
  "('m, 's, 'c) ClusterStatusUpdater \<Rightarrow> string \<Rightarrow> ('m, 's, 'c) ClusterStatusUpdater" where
  "Info u msg = u\<lparr>log := log u @ [msg]\<rparr>"

text \<open>\<^verbatim>\<open>updater.k8sClient.Update(updater.context, &obj)\<close>: the call is recorded and the
  server's answer returned.\<close>

definition Update ::
  "('m, 's, 'c) ClusterStatusUpdater \<Rightarrow> ('m, 's) FlinkSessionCluster \<Rightarrow>
   (fault + string option) \<times> ('m, 's, 'c) ClusterStatusUpdater" where
  "Update u obj =
     (Inr (Update_result (k8sClient u) (updater_context u) obj),
      u\<lparr>k8sClient := (k8sClient u)\<lparr>Update_calls :=
           Update_calls (k8sClient u) @ [(updater_context u, obj)]\<rparr>\<rparr>)"

section \<open>Status derivation\<close>

text \<open>
  \<^verbatim>\<open>deriveClusterStatus\<close> runs four blocks, one for each sub-resource, on the local
  variables \<^verbatim>\<open>status\<close> and \<^verbatim>\<open>readyComponents\<close>, and then sets the overall state.
  Each block is a function on the pair of the two variables.
\<close>

text \<open>Lines 77 to 93: the JobManager deployment.\<close>

definition derive_jmDeployment ::
  "('m, 's, 'c) ClusterStatusUpdater \<Rightarrow> FlinkSessionClusterStatus \<times> int \<Rightarrow>
   FlinkSessionClusterStatus \<times> int" where
  "derive_jmDeployment u = (\<lambda>(status, readyComponents).
     (case jmDeployment (observedState u) of
        None \<Rightarrow> (status, readyComponents)
      | Some observedJmDeployment \<Rightarrow>
          (let c = Components status;
               named = (JobManagerDeployment c)\<lparr>Name := deployment_Name observedJmDeployment\<rparr>
           in if deployment_Status_AvailableReplicas observedJmDeployment <s
                   deployment_Status_Replicas observedJmDeployment \<or>
                 deployment_Status_ReadyReplicas observedJmDeployment <s
                   deployment_Status_Replicas observedJmDeployment
              then (status\<lparr>Components := c\<lparr>JobManagerDeployment :=
                      named\<lparr>State := ClusterComponentState_NotReady\<rparr>\<rparr>\<rparr>,
                    readyComponents)
              else (status\<lparr>Components := c\<lparr>JobManagerDeployment :=
                      named\<lparr>State := ClusterComponentState_Ready\<rparr>\<rparr>\<rparr>,
                    readyComponents + 1))))"

text \<open>Lines 95 to 103: the JobManager service.\<close>

definition derive_jmService ::
  "('m, 's, 'c) ClusterStatusUpdater \<Rightarrow> FlinkSessionClusterStatus \<times> int \<Rightarrow>
   FlinkSessionClusterStatus \<times> int" where
  "derive_jmService u = (\<lambda>(status, readyComponents).
     (case jmService (observedState u) of
        None \<Rightarrow> (status, readyComponents)
      | Some observedJmService \<Rightarrow>
          (let c = Components status;
               named = (JobManagerService c)\<lparr>Name := service_Name observedJmService\<rparr>
           in (status\<lparr>Components := c\<lparr>JobManagerService :=
                 named\<lparr>State := ClusterComponentState_Ready\<rparr>\<rparr>\<rparr>,
               readyComponents + 1))))"

text \<open>Lines 105 to 121: the TaskManager deployment.\<close>

definition derive_tmDeployment ::
  "('m, 's, 'c) ClusterStatusUpdater \<Rightarrow> FlinkSessionClusterStatus \<times> int \<Rightarrow>
   FlinkSessionClusterStatus \<times> int" where
  "derive_tmDeployment u = (\<lambda>(status, readyComponents).
     (case tmDeployment (observedState u) of
        None \<Rightarrow> (status, readyComponents)
      | Some observedTmDeployment \<Rightarrow>
          (let c = Components status;
               named = (TaskManagerDeployment c)\<lparr>Name := deployment_Name observedTmDeployment\<rparr>
           in if deployment_Status_AvailableReplicas observedTmDeployment <s
                   deployment_Status_Replicas observedTmDeployment \<or>
                 deployment_Status_ReadyReplicas observedTmDeployment <s
                   deployment_Status_Replicas observedTmDeployment
              then (status\<lparr>Components := c\<lparr>TaskManagerDeployment :=
                      named\<lparr>State := ClusterComponentState_NotReady\<rparr>\<rparr>\<rparr>,
                    readyComponents)
              else (status\<lparr>Components := c\<lparr>TaskManagerDeployment :=
                      named\<lparr>State := ClusterComponentState_Ready\<rparr>\<rparr>\<rparr>,
                    readyComponents + 1))))"

text \<open>Lines 123 to 137: the optional job. The slot is allocated, then named, then
  given its state by the first of the three counters that is positive.\<close>

definition derive_job ::
  "('m, 's, 'c) ClusterStatusUpdater \<Rightarrow> FlinkSessionClusterStatus \<times> int \<Rightarrow>
   FlinkSessionClusterStatus \<times> int" where
  "derive_job u = (\<lambda>(status, readyComponents).
     (case job (observedState u) of
        None \<Rightarrow> (status, readyComponents)
      | Some observedJob \<Rightarrow>
          (let allocated = \<lparr>jobStatus_Name = '''', jobStatus_State = ''''\<rparr>;
               named = allocated\<lparr>jobStatus_Name := job_Name observedJob\<rparr>;
               stated =
                 (if 0 <s job_Active observedJob
                    then named\<lparr>jobStatus_State := JobState_Running\<rparr>
                  else if 0 <s job_Failed observedJob
                    then named\<lparr>jobStatus_State := JobState_Failed\<rparr>
                  else if 0 <s job_Succeeded observedJob
                    then named\<lparr>jobStatus_State := JobState_Succeeded\<rparr>
                  else named\<lparr>jobStatus_State := JobState_Unknown\<rparr>)
           in (status\<lparr>Components := (Components status)\<lparr>Job := Some stated\<rparr>\<rparr>,
               readyComponents))))"

text \<open>\<^verbatim>\<open>deriveClusterStatus\<close>, lines 73 to 146.\<close>

definition deriveClusterStatus ::
  "('m, 's, 'c) ClusterStatusUpdater \<Rightarrow> FlinkSessionClusterStatus" where
  "deriveClusterStatus u =
     (let (status, readyComponents) =
            derive_job u (derive_tmDeployment u (derive_jmService u
              (derive_jmDeployment u (zero_Status, 0))))
      in if readyComponents < 3
         then status\<lparr>status_State := ClusterState_Reconciling\<rparr>
         else status\<lparr>status_State := ClusterState_Running\<rparr>)"

section \<open>Change detection\<close>

text \<open>
  \<^verbatim>\<open>isStatusChanged\<close>, lines 148 to 211. When the recorded job slot is not nil the
  code dereferences the new job slot without a nil check: Go panics there.
\<close>

definition isStatusChanged ::
  "('m, 's, 'c) ClusterStatusUpdater \<Rightarrow> FlinkSessionClusterStatus \<Rightarrow>
   FlinkSessionClusterStatus \<Rightarrow> (fault + bool) \<times> ('m, 's, 'c) ClusterStatusUpdater" where
  "isStatusChanged u currentStatus newStatus =
     (let changed = False;
          (changed, u) =
            (if status_State newStatus \<noteq> status_State currentStatus
             then (True, Info u ''Cluster state changed'') else (changed, u));
          (changed, u) =
            (if JobManagerDeployment (Components newStatus) \<noteq>
                JobManagerDeployment (Components currentStatus)
             then (True, Info u ''JobManager deployment status changed'') else (changed, u));
          (changed, u) =
            (if JobManagerService (Components newStatus) \<noteq>
                JobManagerService (Components currentStatus)
             then (True, Info u ''JobManager service status changed'') else (changed, u));
          (changed, u) =
            (if TaskManagerDeployment (Components newStatus) \<noteq>
                TaskManagerDeployment (Components currentStatus)
             then (True, Info u ''TaskManager deployment status changed'') else (changed, u))
      in case Job (Components currentStatus) of
           None \<Rightarrow>
             (case Job (Components newStatus) of
                Some newJob \<Rightarrow> (Inr True, Info u ''Job status changed'')
              | None \<Rightarrow> (Inr changed, u))
         | Some currentJob \<Rightarrow>
             (case Job (Components newStatus) of
                None \<Rightarrow> (Inl NilDereference, u)
              | Some newJob \<Rightarrow>
                  if newJob \<noteq> currentJob
                  then (Inr True, Info u ''Job status changed'')
                  else (Inr changed, u)))"

section \<open>Conditional persistence\<close>

text \<open>\<^verbatim>\<open>updateClusterStatus\<close>, lines 213 to 219: a copy of the observed cluster with
  its status replaced is sent to the API server.\<close>

definition updateClusterStatus ::
  "('m, 's, 'c) ClusterStatusUpdater \<Rightarrow> FlinkSessionClusterStatus \<Rightarrow>
   (fault + string option) \<times> ('m, 's, 'c) ClusterStatusUpdater" where
  "updateClusterStatus u status =
     (case cluster (observedState u) of
        None \<Rightarrow> (Inl NilDereference, u)
      | Some observed \<Rightarrow>
          (let flinkSessionCluster = cluster_DeepCopy observed;
               flinkSessionCluster = flinkSessionCluster\<lparr>Status := status\<rparr>
           in Update u flinkSessionCluster))"

text \<open>\<^verbatim>\<open>updateClusterStatusIfChanged\<close>, lines 41 to 71. \<open>now\<close> is the text that
  \<^verbatim>\<open>time.Now().Format(time.RFC3339)\<close> gives at the call. The result is Go's error
  (\<open>Inr None\<close> is \<^verbatim>\<open>nil\<close>) or the panic, with the updater as the call leaves it.\<close>

definition updateClusterStatusIfChanged ::
  "string \<Rightarrow> ('m, 's, 'c) ClusterStatusUpdater \<Rightarrow>
   (fault + string option) \<times> ('m, 's, 'c) ClusterStatusUpdater" where
  "updateClusterStatusIfChanged now u =
     (case cluster (observedState u) of
        None \<Rightarrow> (Inr None, Info u ''The cluster has been deleted, no status to update'')
      | Some observed \<Rightarrow>
          (let currentStatus = status_DeepCopy (Status observed);
               currentStatus = currentStatus\<lparr>LastUpdateTime := ''''\<rparr>;
               newStatus = deriveClusterStatus u
           in case isStatusChanged u currentStatus newStatus of
                (Inl panic, u) \<Rightarrow> (Inl panic, u)
              | (Inr changed, u) \<Rightarrow>
                  if changed
                  then (let u = Info u ''Updating status'';
                            newStatus = newStatus\<lparr>LastUpdateTime := now\<rparr>
                        in updateClusterStatus u newStatus)
                  else (Inr None, Info u ''No status change'')))"

section \<open>Example snapshots\<close>

text \<open>Concrete updaters and snapshots on which the theorems below are evaluated. The
  cluster's identity and spec are strings there, the context is the unit value, and the
  API server accepts every update.\<close>

definition example_client :: "(string, string, unit) Client" where
  "example_client = \<lparr>Update_result = (\<lambda>ctx obj. None), Update_calls = []\<rparr>"

definition example_updater ::
  "(string, string) ObservedClusterState \<Rightarrow> (string, string, unit) ClusterStatusUpdater" where
  "example_updater obs =
     \<lparr>k8sClient = example_client, updater_context = (), log = [], observedState = obs\<rparr>"

text \<open>A deployment by its name, the desired replicas of its spec, and the replicas,
  available replicas and ready replicas of its status.\<close>

definition example_deployment ::
  "string \<Rightarrow> int32 \<Rightarrow> int32 \<Rightarrow> int32 \<Rightarrow> int32 \<Rightarrow> Deployment" where
  "example_deployment n desired replicas available ready =
     \<lparr>deployment_Name = n, deployment_Spec_Replicas = Some desired,
      deployment_Status_Replicas = replicas,
      deployment_Status_AvailableReplicas = available,
      deployment_Status_ReadyReplicas = ready\<rparr>"

definition example_service :: Service where
  "example_service = \<lparr>service_Name = ''jm-svc''\<rparr>"

text \<open>A retried job: one pod active, one failed, none succeeded.\<close>

definition retried_job :: Job where
  "retried_job = \<lparr>job_Name = ''job'', job_Active = 1, job_Failed = 1, job_Succeeded = 0\<rparr>"

definition recorded_cluster ::
  "FlinkSessionClusterStatus \<Rightarrow> (string, string) FlinkSessionCluster" where
  "recorded_cluster st = \<lparr>ObjectMeta = ''session-1'', Spec = ''spec-1'', Status = st\<rparr>"

text \<open>All sub-resources observed and ready, nothing recorded yet.\<close>

definition snapshot_ready :: "(string, string) ObservedClusterState" where
  "snapshot_ready =
     \<lparr>cluster = Some (recorded_cluster zero_Status),
      jmDeployment = Some (example_deployment ''jm'' 3 3 3 3),
      jmService = Some example_service,
      tmDeployment = Some (example_deployment ''tm'' 2 2 2 2),
      job = Some retried_job\<rparr>"

text \<open>The next pass: the status derived from \<open>snapshot_ready\<close> is recorded, and the job
  has been deleted since.\<close>

definition snapshot_job_removed :: "(string, string) ObservedClusterState" where
  "snapshot_job_removed =
     snapshot_ready
       \<lparr>cluster := Some (recorded_cluster (deriveClusterStatus (example_updater snapshot_ready))),
        job := None\<rparr>"

text \<open>No sub-resource exists yet.\<close>

definition snapshot_empty :: "(string, string) ObservedClusterState" where
  "snapshot_empty =
     \<lparr>cluster = Some (recorded_cluster zero_Status), jmDeployment = None, jmService = None,
      tmDeployment = None, job = None\<rparr>"

text \<open>The scenario of the specification: the worker deployment has one of its two
  replicas available, and there is no job.\<close>

definition snapshot_worker_unready :: "(string, string) ObservedClusterState" where
  "snapshot_worker_unready =
     \<lparr>cluster = Some (recorded_cluster zero_Status),
      jmDeployment = Some (example_deployment ''jm'' 3 3 3 3),
      jmService = Some example_service,
      tmDeployment = Some (example_deployment ''tm'' 2 2 1 2),
      job = None\<rparr>"

text \<open>The JobManager deployment has just been created with three desired replicas: no pod
  exists yet, and its status reports 0 replicas, 0 available and 0 ready.\<close>

definition snapshot_scaling_up :: "(string, string) ObservedClusterState" where
  "snapshot_scaling_up =
     \<lparr>cluster = Some (recorded_cluster zero_Status),
      jmDeployment = Some (example_deployment ''jm'' 3 0 0 0),
      jmService = Some example_service,
      tmDeployment = Some (example_deployment ''tm'' 2 2 2 2),
      job = None\<rparr>"

text \<open>The parent has been deleted, its sub-resources are still there.\<close>

definition snapshot_deleted_parent :: "(string, string) ObservedClusterState" where
  "snapshot_deleted_parent = snapshot_ready\<lparr>cluster := None\<rparr>"

text \<open>The status derived from \<open>snapshot_ready\<close> was recorded by an earlier pass, with
  that pass's timestamp, and nothing has changed since.\<close>

definition snapshot_recorded :: "(string, string) ObservedClusterState" where
  "snapshot_recorded =
     snapshot_ready
       \<lparr>cluster := Some (recorded_cluster
          ((deriveClusterStatus (example_updater snapshot_ready))
             \<lparr>LastUpdateTime := ''2019-09-30T12:00:00Z''\<rparr>))\<rparr>"

section \<open>Basic facts\<close>

lemmas derive_defs = deriveClusterStatus_def derive_jmDeployment_def derive_jmService_def
  derive_tmDeployment_def derive_job_def zero_Status_def zero_ComponentStatus_def

lemmas state_defs = ClusterState_Reconciling_def ClusterState_Running_def
  ClusterComponentState_NotReady_def ClusterComponentState_Ready_def
  JobState_Running_def JobState_Failed_def JobState_Succeeded_def JobState_Unknown_def

lemmas example_defs = example_client_def example_updater_def example_deployment_def
  example_service_def retried_job_def recorded_cluster_def snapshot_ready_def
  snapshot_job_removed_def snapshot_empty_def snapshot_worker_unready_def
  snapshot_deleted_parent_def snapshot_recorded_def snapshot_scaling_up_def

text \<open>The derived status, slot by slot.\<close>

lemma derive_LastUpdateTime: "LastUpdateTime (deriveClusterStatus u) = ''''"
  by (simp add: derive_defs Let_def split: option.splits prod.splits)

lemma derive_job_slot:
  "Job (Components (deriveClusterStatus u)) =
     (case job (observedState u) of None \<Rightarrow> None
      | Some j \<Rightarrow> Some \<lparr>jobStatus_Name = job_Name j,
          jobStatus_State = (if 0 <s job_Active j then JobState_Running
             else if 0 <s job_Failed j then JobState_Failed
             else if 0 <s job_Succeeded j then JobState_Succeeded
             else JobState_Unknown)\<rparr>)"
  by (simp add: derive_defs Let_def split: option.splits prod.splits)

lemma derive_jm_slot:
  "JobManagerDeployment (Components (deriveClusterStatus u)) =
     (case jmDeployment (observedState u) of None \<Rightarrow> zero_ComponentStatus
      | Some d \<Rightarrow> \<lparr>Name = deployment_Name d,
          State = (if deployment_Status_AvailableReplicas d <s deployment_Status_Replicas d \<or>
                      deployment_Status_ReadyReplicas d <s deployment_Status_Replicas d
                   then ClusterComponentState_NotReady else ClusterComponentState_Ready)\<rparr>)"
  by (simp add: derive_defs Let_def split: option.splits prod.splits)

lemma derive_svc_slot:
  "JobManagerService (Components (deriveClusterStatus u)) =
     (case jmService (observedState u) of None \<Rightarrow> zero_ComponentStatus
      | Some s \<Rightarrow> \<lparr>Name = service_Name s, State = ClusterComponentState_Ready\<rparr>)"
  by (simp add: derive_defs Let_def split: option.splits prod.splits)

lemma derive_tm_slot:
  "TaskManagerDeployment (Components (deriveClusterStatus u)) =
     (case tmDeployment (observedState u) of None \<Rightarrow> zero_ComponentStatus
      | Some d \<Rightarrow> \<lparr>Name = deployment_Name d,
          State = (if deployment_Status_AvailableReplicas d <s deployment_Status_Replicas d \<or>
                      deployment_Status_ReadyReplicas d <s deployment_Status_Replicas d
                   then ClusterComponentState_NotReady else ClusterComponentState_Ready)\<rparr>)"
  by (simp add: derive_defs Let_def split: option.splits prod.splits)

lemma derive_state:
  "status_State (deriveClusterStatus u) =
     (if (case jmDeployment (observedState u) of None \<Rightarrow> False
          | Some d \<Rightarrow> \<not> (deployment_Status_AvailableReplicas d <s deployment_Status_Replicas d \<or>
                        deployment_Status_ReadyReplicas d <s deployment_Status_Replicas d)) \<and>
         jmService (observedState u) \<noteq> None \<and>
         (case tmDeployment (observedState u) of None \<Rightarrow> False
          | Some d \<Rightarrow> \<not> (deployment_Status_AvailableReplicas d <s deployment_Status_Replicas d \<or>
                        deployment_Status_ReadyReplicas d <s deployment_Status_Replicas d))
      then ClusterState_Running else ClusterState_Reconciling)"
  by (simp add: derive_defs Let_def split: option.splits prod.splits)

text \<open>The comparison returns false exactly on equal overall states and equal slots.\<close>

lemma isStatusChanged_unchanged_iff:
  "fst (isStatusChanged u cur new) = Inr False \<longleftrightarrow>
     status_State new = status_State cur \<and> Components new = Components cur"
  by (cases "Components new"; cases "Components cur")
     (auto simp: isStatusChanged_def Let_def split: option.splits)

lemma isStatusChanged_unchanged_updater:
  "status_State new = status_State cur \<Longrightarrow> Components new = Components cur \<Longrightarrow>
   isStatusChanged u cur new = (Inr False, u)"
  by (auto simp: isStatusChanged_def Let_def split: option.splits)

lemma isStatusChanged_ignores_LastUpdateTime:
  "isStatusChanged u (a\<lparr>LastUpdateTime := t\<rparr>) (b\<lparr>LastUpdateTime := t'\<rparr>) =
   isStatusChanged u a b"
  by (simp add: isStatusChanged_def cong: option.case_cong)

text \<open>With the three mandatory slots and the overall state equal, the result is decided
  by the two job slots.\<close>

lemma isStatusChanged_job_slot:
  "status_State new = status_State cur \<Longrightarrow>
   JobManagerDeployment (Components new) = JobManagerDeployment (Components cur) \<Longrightarrow>
   JobManagerService (Components new) = JobManagerService (Components cur) \<Longrightarrow>
   TaskManagerDeployment (Components new) = TaskManagerDeployment (Components cur) \<Longrightarrow>
   fst (isStatusChanged u cur new) =
     (case (Job (Components cur), Job (Components new)) of
        (None, None) \<Rightarrow> Inr False
      | (None, Some n) \<Rightarrow> Inr True
      | (Some c, None) \<Rightarrow> Inl NilDereference
      | (Some c, Some n) \<Rightarrow> Inr (n \<noteq> c))"
  by (auto simp: isStatusChanged_def Let_def split: option.splits)

text \<open>A recorded status that equals the derived one, the timestamp apart, is left alone.\<close>

lemma unchanged_no_update:
  assumes "cluster (observedState u) = Some c"
    and "status_State (Status c) = status_State (deriveClusterStatus u)"
    and "Components (Status c) = Components (deriveClusterStatus u)"
  shows "updateClusterStatusIfChanged now u = (Inr None, Info u ''No status change'')"
  using assms
  by (simp add: updateClusterStatusIfChanged_def status_DeepCopy_def Let_def
        isStatusChanged_unchanged_updater)

text \<open>The derivation reads the four sub-resources of the snapshot and nothing else.\<close>

lemma derive_cong:
  "jmDeployment (observedState u) = jmDeployment (observedState v) \<Longrightarrow>
   jmService (observedState u) = jmService (observedState v) \<Longrightarrow>
   tmDeployment (observedState u) = tmDeployment (observedState v) \<Longrightarrow>
   job (observedState u) = job (observedState v) \<Longrightarrow>
   deriveClusterStatus u = deriveClusterStatus v"
  by (simp add: derive_defs)

text \<open>The comparison writes log lines and touches nothing else of the updater.\<close>

lemma isStatusChanged_updater:
  "k8sClient (snd (isStatusChanged u cur new)) = k8sClient u \<and>
   updater_context (snd (isStatusChanged u cur new)) = updater_context u \<and>
   observedState (snd (isStatusChanged u cur new)) = observedState u"
  by (simp add: isStatusChanged_def Info_def Let_def split: option.splits)

text \<open>A pass on a snapshot with a parent, with the two copies and the local variables
  resolved.\<close>

lemma update_unfold:
  assumes "cluster (observedState u) = Some c"
  shows "updateClusterStatusIfChanged now u =
     (let r = isStatusChanged u ((Status c)\<lparr>LastUpdateTime := ''''\<rparr>) (deriveClusterStatus u)
      in case fst r of
           Inl panic \<Rightarrow> (Inl panic, snd r)
         | Inr changed \<Rightarrow>
             if changed
             then Update (Info (snd r) ''Updating status'')
                    (c\<lparr>Status := (deriveClusterStatus u)\<lparr>LastUpdateTime := now\<rparr>\<rparr>)
             else (Inr None, Info (snd r) ''No status change''))"
proof -
  obtain r u' where R:
    "isStatusChanged u ((Status c)\<lparr>LastUpdateTime := ''''\<rparr>) (deriveClusterStatus u) = (r, u')"
    by (cases "isStatusChanged u ((Status c)\<lparr>LastUpdateTime := ''''\<rparr>) (deriveClusterStatus u)")
  have "observedState u' = observedState u"
    using isStatusChanged_updater
      [of u "(Status c)\<lparr>LastUpdateTime := ''''\<rparr>" "deriveClusterStatus u"] R
    by simp
  with assms R show ?thesis
    by (simp add: updateClusterStatusIfChanged_def updateClusterStatus_def status_DeepCopy_def
          cluster_DeepCopy_def Let_def Info_def split: sum.splits)
qed

lemma updater_fields_kept:
  "observedState (snd (updateClusterStatusIfChanged now u)) = observedState u \<and>
   updater_context (snd (updateClusterStatusIfChanged now u)) = updater_context u \<and>
   Update_result (k8sClient (snd (updateClusterStatusIfChanged now u))) =
     Update_result (k8sClient u)"
proof (cases "cluster (observedState u)")
  case None
  then show ?thesis by (simp add: updateClusterStatusIfChanged_def Info_def)
next
  case (Some c)
  show ?thesis
    using isStatusChanged_updater
      [of u "(Status c)\<lparr>LastUpdateTime := ''''\<rparr>" "deriveClusterStatus u"]
    by (simp add: update_unfold [OF Some] Let_def Update_def Info_def split: sum.splits)
qed

text \<open>The update calls of a pass: one when the comparison returns true, none otherwise.\<close>

lemma update_calls:
  "Update_calls (k8sClient (snd (updateClusterStatusIfChanged now u))) =
     Update_calls (k8sClient u) @
       (case cluster (observedState u) of
          None \<Rightarrow> []
        | Some c \<Rightarrow>
            if fst (isStatusChanged u ((Status c)\<lparr>LastUpdateTime := ''''\<rparr>)
                 (deriveClusterStatus u)) = Inr True
            then [(updater_context u,
                   c\<lparr>Status := (deriveClusterStatus u)\<lparr>LastUpdateTime := now\<rparr>\<rparr>)]
            else [])"
proof (cases "cluster (observedState u)")
  case None
  then show ?thesis by (simp add: updateClusterStatusIfChanged_def Info_def)
next
  case (Some c)
  show ?thesis
    using isStatusChanged_updater
      [of u "(Status c)\<lparr>LastUpdateTime := ''''\<rparr>" "deriveClusterStatus u"]
    by (simp add: update_unfold [OF Some] Some Let_def Update_def Info_def split: sum.splits)
qed

lemma update_sent_status:
  assumes "Update_calls (k8sClient (snd (updateClusterStatusIfChanged now u))) =
      Update_calls (k8sClient u) @ [(ctx, persisted)]"
  shows "Status persisted = (deriveClusterStatus u)\<lparr>LastUpdateTime := now\<rparr>"
proof (cases "cluster (observedState u)")
  case None
  with assms show ?thesis by (simp add: update_calls)
next
  case (Some c)
  with assms have "fst (isStatusChanged u ((Status c)\<lparr>LastUpdateTime := ''''\<rparr>)
      (deriveClusterStatus u)) = Inr True \<and>
    persisted = c\<lparr>Status := (deriveClusterStatus u)\<lparr>LastUpdateTime := now\<rparr>\<rparr>"
    by (simp add: update_calls split: if_splits)
  then show ?thesis by simp
qed

lemma update_sent:
  "\<exists>sent. Update_calls (k8sClient (snd (updateClusterStatusIfChanged now u))) =
        Update_calls (k8sClient u) @ sent \<and> length sent \<le> 1 \<and>
      (\<forall>(ctx, obj) \<in> set sent. \<exists>c. cluster (observedState u) = Some c \<and>
         ObjectMeta obj = ObjectMeta c \<and> Spec obj = Spec c \<and>
         Status obj = (deriveClusterStatus u)\<lparr>LastUpdateTime := now\<rparr>)"
proof (cases "cluster (observedState u)")
  case None
  then have "Update_calls (k8sClient (snd (updateClusterStatusIfChanged now u))) =
      Update_calls (k8sClient u) @ []"
    by (simp add: update_calls)
  then show ?thesis by (intro exI [of _ "[]"]) simp
next
  case (Some c)
  show ?thesis
  proof (cases "fst (isStatusChanged u ((Status c)\<lparr>LastUpdateTime := ''''\<rparr>)
      (deriveClusterStatus u)) = Inr True")
    case True
    with Some have "Update_calls (k8sClient (snd (updateClusterStatusIfChanged now u))) =
        Update_calls (k8sClient u) @
          [(updater_context u, c\<lparr>Status := (deriveClusterStatus u)\<lparr>LastUpdateTime := now\<rparr>\<rparr>)]"
      by (simp add: update_calls)
    with Some show ?thesis
      by (intro exI [of _ "[(updater_context u,
            c\<lparr>Status := (deriveClusterStatus u)\<lparr>LastUpdateTime := now\<rparr>\<rparr>)]"]) simp
  next
    case False
    with Some have "Update_calls (k8sClient (snd (updateClusterStatusIfChanged now u))) =
        Update_calls (k8sClient u) @ []"
      by (simp add: update_calls)
    then show ?thesis by (intro exI [of _ "[]"]) simp
  qed
qed

text \<open>The passes on the example snapshots, evaluated.\<close>

lemma pass_on_snapshot_ready:
  "fst (updateClusterStatusIfChanged ''2019-10-01T00:00:00Z'' (example_updater snapshot_ready)) =
     Inr None \<and>
   Update_calls (k8sClient (snd (updateClusterStatusIfChanged ''2019-10-01T00:00:00Z''
       (example_updater snapshot_ready)))) =
     [((), recorded_cluster ((deriveClusterStatus (example_updater snapshot_ready))
             \<lparr>LastUpdateTime := ''2019-10-01T00:00:00Z''\<rparr>))]"
  by (simp add: updateClusterStatusIfChanged_def updateClusterStatus_def isStatusChanged_def
        status_DeepCopy_def cluster_DeepCopy_def Update_def Info_def
        derive_defs state_defs example_defs Let_def word_sless_alt)

text \<open>Where the job slots do not meet the missing nil check, any difference in the
  overall state or in a slot makes the comparison return true.\<close>

lemma isStatusChanged_changed:
  assumes "status_State new \<noteq> status_State cur \<or> Components new \<noteq> Components cur"
    and "Job (Components cur) = None \<or> Job (Components new) \<noteq> None"
  shows "fst (isStatusChanged u cur new) = Inr True"
  using assms
  by (cases "Components new"; cases "Components cur")
     (auto simp: isStatusChanged_def Let_def split: option.splits)

section \<open>The claims\<close>

text \<open>
  C1 (the code departs from it). The claim: \<^verbatim>\<open>isStatusChanged\<close> compares the job slot
  three ways, and reports a change when exactly one of the two job slots is absent. When
  the recorded slot is absent and the new one present it does. When the recorded slot is
  present and the new one absent, the code dereferences the nil new slot: on the
  snapshot taken after an observed job was deleted, the comparison, and with it
  \<^verbatim>\<open>updateClusterStatusIfChanged\<close>, panics instead of reporting a change.
\<close>

theorem isStatusChanged_job_removed_panics:
  "Job (Components (deriveClusterStatus (example_updater snapshot_ready))) =
     Some \<lparr>jobStatus_Name = ''job'', jobStatus_State = ''Running''\<rparr>
   \<and> Job (Components (deriveClusterStatus (example_updater snapshot_job_removed))) = None
   \<and> fst (isStatusChanged (example_updater snapshot_job_removed)
          (deriveClusterStatus (example_updater snapshot_ready))
          (deriveClusterStatus (example_updater snapshot_job_removed))) = Inl NilDereference
   \<and> fst (updateClusterStatusIfChanged ''2019-10-01T00:00:00Z''
          (example_updater snapshot_job_removed)) = Inl NilDereference"
  by (simp add: updateClusterStatusIfChanged_def isStatusChanged_def status_DeepCopy_def
        derive_defs state_defs example_defs Let_def word_sless_alt)

text \<open>
  C2 (as stated, false on the code). The claim: a slot of the derived status exists if
  and only if its sub-resource is observed, and an absent sub-resource gives an absent,
  not zero-valued, entry. The three mandatory slots are struct values: on the snapshot
  without sub-resources the JobManager deployment slot is there, with the zero value.
\<close>

theorem derive_absent_slot_is_zero_valued:
  "jmDeployment (observedState (example_updater snapshot_empty)) = None \<and>
   JobManagerDeployment (Components (deriveClusterStatus (example_updater snapshot_empty))) =
     \<lparr>Name = '''', State = ''''\<rparr>"
  by (simp add: derive_defs example_defs)

text \<open>
  C2 (amended). For every snapshot, the job slot of the derived status is nil if and only
  if the job is absent from the snapshot, and carries the job's name when the job is
  observed. A mandatory slot always exists: it is the zero-valued entry (empty name,
  empty state) if and only if its sub-resource is absent from the snapshot, and when the
  sub-resource is observed it carries the sub-resource's name and the state \<open>Ready\<close> or
  \<open>NotReady\<close> (\<open>Ready\<close> for the service), neither of which is the empty state. The
  comparison tells an absent entry from a present one: on a recorded status whose slots
  differ from the derived ones \<^verbatim>\<open>isStatusChanged\<close> returns true, whenever the recorded
  job slot is nil or the derived job slot is not.
\<close>

theorem derive_slots_follow_snapshot:
  "(Job (Components (deriveClusterStatus u)) = None \<longleftrightarrow> job (observedState u) = None) \<and>
   (JobManagerDeployment (Components (deriveClusterStatus u)) = zero_ComponentStatus
      \<longleftrightarrow> jmDeployment (observedState u) = None) \<and>
   (JobManagerService (Components (deriveClusterStatus u)) = zero_ComponentStatus
      \<longleftrightarrow> jmService (observedState u) = None) \<and>
   (TaskManagerDeployment (Components (deriveClusterStatus u)) = zero_ComponentStatus
      \<longleftrightarrow> tmDeployment (observedState u) = None) \<and>
   (jmDeployment (observedState u) = Some jm \<longrightarrow>
      Name (JobManagerDeployment (Components (deriveClusterStatus u))) = deployment_Name jm \<and>
      (State (JobManagerDeployment (Components (deriveClusterStatus u))) =
         ClusterComponentState_Ready \<or>
       State (JobManagerDeployment (Components (deriveClusterStatus u))) =
         ClusterComponentState_NotReady)) \<and>
   (jmService (observedState u) = Some svc \<longrightarrow>
      JobManagerService (Components (deriveClusterStatus u)) =
        \<lparr>Name = service_Name svc, State = ClusterComponentState_Ready\<rparr>) \<and>
   (tmDeployment (observedState u) = Some tm \<longrightarrow>
      Name (TaskManagerDeployment (Components (deriveClusterStatus u))) = deployment_Name tm \<and>
      (State (TaskManagerDeployment (Components (deriveClusterStatus u))) =
         ClusterComponentState_Ready \<or>
       State (TaskManagerDeployment (Components (deriveClusterStatus u))) =
         ClusterComponentState_NotReady)) \<and>
   (job (observedState u) = Some j \<longrightarrow>
      map_option jobStatus_Name (Job (Components (deriveClusterStatus u))) =
        Some (job_Name j)) \<and>
   State zero_ComponentStatus \<noteq> ClusterComponentState_Ready \<and>
   State zero_ComponentStatus \<noteq> ClusterComponentState_NotReady \<and>
   (Components recorded \<noteq> Components (deriveClusterStatus u) \<and>
    (Job (Components recorded) = None \<or> Job (Components (deriveClusterStatus u)) \<noteq> None)
      \<longrightarrow> fst (isStatusChanged v recorded (deriveClusterStatus u)) = Inr True)"
proof -
  have slots: "(Job (Components (deriveClusterStatus u)) = None \<longleftrightarrow>
        job (observedState u) = None) \<and>
      (JobManagerDeployment (Components (deriveClusterStatus u)) = zero_ComponentStatus
        \<longleftrightarrow> jmDeployment (observedState u) = None) \<and>
      (JobManagerService (Components (deriveClusterStatus u)) = zero_ComponentStatus
        \<longleftrightarrow> jmService (observedState u) = None) \<and>
      (TaskManagerDeployment (Components (deriveClusterStatus u)) = zero_ComponentStatus
        \<longleftrightarrow> tmDeployment (observedState u) = None)"
    by (simp add: derive_job_slot derive_jm_slot derive_svc_slot derive_tm_slot
          zero_ComponentStatus_def state_defs split: option.splits)
  have present: "(jmDeployment (observedState u) = Some jm \<longrightarrow>
        Name (JobManagerDeployment (Components (deriveClusterStatus u))) = deployment_Name jm \<and>
        (State (JobManagerDeployment (Components (deriveClusterStatus u))) =
           ClusterComponentState_Ready \<or>
         State (JobManagerDeployment (Components (deriveClusterStatus u))) =
           ClusterComponentState_NotReady)) \<and>
      (jmService (observedState u) = Some svc \<longrightarrow>
        JobManagerService (Components (deriveClusterStatus u)) =
          \<lparr>Name = service_Name svc, State = ClusterComponentState_Ready\<rparr>) \<and>
      (tmDeployment (observedState u) = Some tm \<longrightarrow>
        Name (TaskManagerDeployment (Components (deriveClusterStatus u))) = deployment_Name tm \<and>
        (State (TaskManagerDeployment (Components (deriveClusterStatus u))) =
           ClusterComponentState_Ready \<or>
         State (TaskManagerDeployment (Components (deriveClusterStatus u))) =
           ClusterComponentState_NotReady)) \<and>
      (job (observedState u) = Some j \<longrightarrow>
        map_option jobStatus_Name (Job (Components (deriveClusterStatus u))) =
          Some (job_Name j))"
    by (simp add: derive_job_slot derive_jm_slot derive_svc_slot derive_tm_slot)
  have zero: "State zero_ComponentStatus \<noteq> ClusterComponentState_Ready \<and>
      State zero_ComponentStatus \<noteq> ClusterComponentState_NotReady"
    by (simp add: zero_ComponentStatus_def state_defs)
  have told_apart: "Components recorded \<noteq> Components (deriveClusterStatus u) \<and>
      (Job (Components recorded) = None \<or> Job (Components (deriveClusterStatus u)) \<noteq> None)
        \<longrightarrow> fst (isStatusChanged v recorded (deriveClusterStatus u)) = Inr True"
  proof
    assume differ: "Components recorded \<noteq> Components (deriveClusterStatus u) \<and>
      (Job (Components recorded) = None \<or> Job (Components (deriveClusterStatus u)) \<noteq> None)"
    show "fst (isStatusChanged v recorded (deriveClusterStatus u)) = Inr True"
    proof (rule isStatusChanged_changed)
      from differ show "status_State (deriveClusterStatus u) \<noteq> status_State recorded \<or>
          Components (deriveClusterStatus u) \<noteq> Components recorded"
        by auto
      from differ show "Job (Components recorded) = None \<or>
          Job (Components (deriveClusterStatus u)) \<noteq> None"
        by simp
    qed
  qed
  from slots present zero told_apart show ?thesis by (intro conjI) (elim conjE, assumption)+
qed

text \<open>The scenario of the specification: nothing recorded, the worker deployment observed
  and not ready. Its slot is not the zero value but the named entry with state
  \<open>NotReady\<close>, the job slot is nil, and the comparison returns true.\<close>

theorem derive_slots_follow_snapshot_witness:
  "tmDeployment (observedState (example_updater snapshot_worker_unready)) =
     Some (example_deployment ''tm'' 2 2 1 2) \<and>
   TaskManagerDeployment (Components
     (deriveClusterStatus (example_updater snapshot_worker_unready))) \<noteq> zero_ComponentStatus \<and>
   TaskManagerDeployment (Components
     (deriveClusterStatus (example_updater snapshot_worker_unready))) =
     \<lparr>Name = ''tm'', State = ''NotReady''\<rparr> \<and>
   job (observedState (example_updater snapshot_worker_unready)) = None \<and>
   Job (Components (deriveClusterStatus (example_updater snapshot_worker_unready))) = None \<and>
   Components zero_Status \<noteq>
     Components (deriveClusterStatus (example_updater snapshot_worker_unready)) \<and>
   fst (isStatusChanged (example_updater snapshot_worker_unready) zero_Status
     (deriveClusterStatus (example_updater snapshot_worker_unready))) = Inr True"
proof -
  let ?u = "example_updater snapshot_worker_unready"
  have tm: "tmDeployment (observedState ?u) = Some (example_deployment ''tm'' 2 2 1 2)"
    and jb: "job (observedState ?u) = None"
    by (simp_all add: example_defs)
  have name: "deployment_Name (example_deployment ''tm'' 2 2 1 2) = ''tm''"
    by (simp add: example_deployment_def)
  have unready: "State (TaskManagerDeployment (Components (deriveClusterStatus ?u))) \<noteq>
      ClusterComponentState_Ready"
    by (simp add: derive_tm_slot tm example_deployment_def state_defs word_sless_alt)
  have recorded_job: "Job (Components zero_Status) = None"
    by (simp add: zero_Status_def)
  note facts = derive_slots_follow_snapshot
      [of ?u "example_deployment ''jm'' 3 3 3 3" example_service
          "example_deployment ''tm'' 2 2 1 2" retried_job zero_Status ?u]
  from facts tm have "Name (TaskManagerDeployment (Components (deriveClusterStatus ?u))) =
        deployment_Name (example_deployment ''tm'' 2 2 1 2) \<and>
      (State (TaskManagerDeployment (Components (deriveClusterStatus ?u))) =
         ClusterComponentState_Ready \<or>
       State (TaskManagerDeployment (Components (deriveClusterStatus ?u))) =
         ClusterComponentState_NotReady)"
    by blast
  with name unready have slot: "TaskManagerDeployment (Components (deriveClusterStatus ?u)) =
      \<lparr>Name = ''tm'', State = ''NotReady''\<rparr>"
    by (cases "TaskManagerDeployment (Components (deriveClusterStatus ?u))")
       (simp add: ClusterComponentState_NotReady_def)
  then have "TaskManagerDeployment (Components zero_Status) \<noteq>
      TaskManagerDeployment (Components (deriveClusterStatus ?u))"
    by (simp add: zero_Status_def zero_ComponentStatus_def)
  then have differ: "Components zero_Status \<noteq> Components (deriveClusterStatus ?u)"
    by auto
  from facts differ recorded_job
  have changed: "fst (isStatusChanged ?u zero_Status (deriveClusterStatus ?u)) = Inr True"
    by blast
  from facts tm have nonzero:
    "TaskManagerDeployment (Components (deriveClusterStatus ?u)) \<noteq> zero_ComponentStatus"
    by simp
  from facts jb have nil: "Job (Components (deriveClusterStatus ?u)) = None"
    by simp
  from tm nonzero slot jb nil differ changed show ?thesis by simp
qed

text \<open>
  C3. For every snapshot, the overall state of the derived status is \<open>Running\<close> if the
  JobManager deployment, the JobManager service and the TaskManager deployment are all
  observed and each deployment passes its readiness test, and \<open>Reconciling\<close> in every
  other case; it is \<open>Running\<close> if and only if the three mandatory slots of the derived
  status have the state \<open>Ready\<close> (the slot of an absent sub-resource has the empty state,
  which is not \<open>Ready\<close>); and replacing the observed job by any other, or by none, leaves
  the overall state as it is.
\<close>

theorem derive_overall_state:
  "status_State (deriveClusterStatus u) =
     (if (case jmDeployment (observedState u) of
            None \<Rightarrow> False
          | Some d \<Rightarrow> \<not> (deployment_Status_AvailableReplicas d <s deployment_Status_Replicas d \<or>
                        deployment_Status_ReadyReplicas d <s deployment_Status_Replicas d)) \<and>
         jmService (observedState u) \<noteq> None \<and>
         (case tmDeployment (observedState u) of
            None \<Rightarrow> False
          | Some d \<Rightarrow> \<not> (deployment_Status_AvailableReplicas d <s deployment_Status_Replicas d \<or>
                        deployment_Status_ReadyReplicas d <s deployment_Status_Replicas d))
      then ClusterState_Running else ClusterState_Reconciling) \<and>
   status_State (deriveClusterStatus u) =
     (if State (JobManagerDeployment (Components (deriveClusterStatus u))) =
           ClusterComponentState_Ready \<and>
         State (JobManagerService (Components (deriveClusterStatus u))) =
           ClusterComponentState_Ready \<and>
         State (TaskManagerDeployment (Components (deriveClusterStatus u))) =
           ClusterComponentState_Ready
      then ClusterState_Running else ClusterState_Reconciling) \<and>
   ClusterState_Running \<noteq> ClusterState_Reconciling \<and>
   State zero_ComponentStatus \<noteq> ClusterComponentState_Ready \<and>
   status_State (deriveClusterStatus (u\<lparr>observedState := (observedState u)\<lparr>job := j\<rparr>\<rparr>)) =
     status_State (deriveClusterStatus u)"
proof (intro conjI)
  show "status_State (deriveClusterStatus u) =
     (if (case jmDeployment (observedState u) of
            None \<Rightarrow> False
          | Some d \<Rightarrow> \<not> (deployment_Status_AvailableReplicas d <s deployment_Status_Replicas d \<or>
                        deployment_Status_ReadyReplicas d <s deployment_Status_Replicas d)) \<and>
         jmService (observedState u) \<noteq> None \<and>
         (case tmDeployment (observedState u) of
            None \<Rightarrow> False
          | Some d \<Rightarrow> \<not> (deployment_Status_AvailableReplicas d <s deployment_Status_Replicas d \<or>
                        deployment_Status_ReadyReplicas d <s deployment_Status_Replicas d))
      then ClusterState_Running else ClusterState_Reconciling)"
    by (rule derive_state)
  show "status_State (deriveClusterStatus u) =
     (if State (JobManagerDeployment (Components (deriveClusterStatus u))) =
           ClusterComponentState_Ready \<and>
         State (JobManagerService (Components (deriveClusterStatus u))) =
           ClusterComponentState_Ready \<and>
         State (TaskManagerDeployment (Components (deriveClusterStatus u))) =
           ClusterComponentState_Ready
      then ClusterState_Running else ClusterState_Reconciling)"
    by (simp add: derive_state derive_jm_slot derive_svc_slot derive_tm_slot
          zero_ComponentStatus_def state_defs split: option.splits)
  show "ClusterState_Running \<noteq> ClusterState_Reconciling"
    by (simp add: state_defs)
  show "State zero_ComponentStatus \<noteq> ClusterComponentState_Ready"
    by (simp add: zero_ComponentStatus_def state_defs)
  show "status_State (deriveClusterStatus
      (u\<lparr>observedState := (observedState u)\<lparr>job := j\<rparr>\<rparr>)) =
      status_State (deriveClusterStatus u)"
    by (simp add: derive_state)
qed

text \<open>With all three components observed and ready the overall state is \<open>Running\<close>,
  with the retried job or without a job; with the worker deployment not ready it is
  \<open>Reconciling\<close>, with or without a job; and with no sub-resource observed it is
  \<open>Reconciling\<close>.\<close>

theorem derive_overall_state_witness:
  "status_State (deriveClusterStatus (example_updater snapshot_ready)) = ''Running'' \<and>
   status_State (deriveClusterStatus ((example_updater snapshot_ready)
     \<lparr>observedState := (observedState (example_updater snapshot_ready))
        \<lparr>job := None\<rparr>\<rparr>)) = ''Running'' \<and>
   State (JobManagerDeployment (Components
     (deriveClusterStatus (example_updater snapshot_ready)))) = ''Ready'' \<and>
   State (JobManagerService (Components
     (deriveClusterStatus (example_updater snapshot_ready)))) = ''Ready'' \<and>
   State (TaskManagerDeployment (Components
     (deriveClusterStatus (example_updater snapshot_ready)))) = ''Ready'' \<and>
   State (TaskManagerDeployment (Components
     (deriveClusterStatus (example_updater snapshot_worker_unready)))) = ''NotReady'' \<and>
   status_State (deriveClusterStatus (example_updater snapshot_worker_unready)) =
     ''Reconciling'' \<and>
   status_State (deriveClusterStatus ((example_updater snapshot_worker_unready)
     \<lparr>observedState := (observedState (example_updater snapshot_worker_unready))
        \<lparr>job := Some retried_job\<rparr>\<rparr>)) = ''Reconciling'' \<and>
   status_State (deriveClusterStatus (example_updater snapshot_empty)) = ''Reconciling''"
proof -
  have ready: "jmDeployment (observedState (example_updater snapshot_ready)) =
        Some (example_deployment ''jm'' 3 3 3 3) \<and>
      jmService (observedState (example_updater snapshot_ready)) = Some example_service \<and>
      tmDeployment (observedState (example_updater snapshot_ready)) =
        Some (example_deployment ''tm'' 2 2 2 2)"
    by (simp add: snapshot_ready_def example_updater_def)
  have unready: "tmDeployment (observedState (example_updater snapshot_worker_unready)) =
      Some (example_deployment ''tm'' 2 2 1 2)"
    by (simp add: snapshot_worker_unready_def example_updater_def)
  have empty: "jmDeployment (observedState (example_updater snapshot_empty)) = None"
    by (simp add: snapshot_empty_def example_updater_def)
  have slots: "State (JobManagerDeployment (Components
        (deriveClusterStatus (example_updater snapshot_ready)))) = ''Ready'' \<and>
      State (JobManagerService (Components
        (deriveClusterStatus (example_updater snapshot_ready)))) = ''Ready'' \<and>
      State (TaskManagerDeployment (Components
        (deriveClusterStatus (example_updater snapshot_ready)))) = ''Ready'' \<and>
      State (TaskManagerDeployment (Components
        (deriveClusterStatus (example_updater snapshot_worker_unready)))) = ''NotReady''"
    by (simp add: derive_jm_slot derive_svc_slot derive_tm_slot ready unready
          example_deployment_def state_defs word_sless_alt)
  from derive_overall_state [of "example_updater snapshot_ready" None]
       derive_overall_state [of "example_updater snapshot_worker_unready" "Some retried_job"]
       derive_overall_state [of "example_updater snapshot_empty" None]
       ready unready empty slots
  show ?thesis
    by (simp add: example_deployment_def state_defs word_sless_alt)
qed

text \<open>
  C4. For every snapshot without the parent cluster, \<^verbatim>\<open>updateClusterStatusIfChanged\<close>
  returns nil and leaves the client as it was, so it issues no update call, whatever
  sub-resources the snapshot holds: it writes one log line and does nothing else.
\<close>

theorem deleted_parent_no_update:
  "cluster (observedState u) = None \<Longrightarrow>
   fst (updateClusterStatusIfChanged now u) = Inr None \<and>
   k8sClient (snd (updateClusterStatusIfChanged now u)) = k8sClient u \<and>
   snd (updateClusterStatusIfChanged now u) =
     Info u ''The cluster has been deleted, no status to update''"
  by (simp add: updateClusterStatusIfChanged_def Info_def)

text \<open>The parent deleted and all four sub-resources still observed: no call.\<close>

theorem deleted_parent_no_update_witness:
  "cluster (observedState (example_updater snapshot_deleted_parent)) = None \<and>
   jmDeployment (observedState (example_updater snapshot_deleted_parent)) \<noteq> None \<and>
   fst (updateClusterStatusIfChanged ''2019-10-01T00:00:00Z''
          (example_updater snapshot_deleted_parent)) = Inr None \<and>
   Update_calls (k8sClient (snd (updateClusterStatusIfChanged ''2019-10-01T00:00:00Z''
          (example_updater snapshot_deleted_parent)))) = []"
proof -
  have absent: "cluster (observedState (example_updater snapshot_deleted_parent)) = None"
    by (simp add: example_defs)
  have present: "jmDeployment (observedState (example_updater snapshot_deleted_parent)) \<noteq> None"
    by (simp add: example_defs)
  have calls: "Update_calls (k8sClient (example_updater snapshot_deleted_parent)) = []"
    by (simp add: example_defs)
  from deleted_parent_no_update [OF absent, of "''2019-10-01T00:00:00Z''"] absent present calls
  show ?thesis by (simp add: Info_def)
qed

text \<open>
  C5. Two statuses with the same overall state and the same slots are judged unchanged,
  whatever their timestamps, and the comparison leaves the updater as it was; the
  timestamps of the two sides do not enter the comparison at all; and a pass on a
  snapshot whose recorded status equals the derived one in state and slots returns nil
  and issues no update call, whatever timestamp is recorded.
\<close>

theorem timestamp_excluded_from_diff:
  "(status_State a = status_State b \<and> Components a = Components b \<longrightarrow>
      isStatusChanged u a b = (Inr False, u)) \<and>
   isStatusChanged u (a\<lparr>LastUpdateTime := t\<rparr>) (b\<lparr>LastUpdateTime := t'\<rparr>) =
     isStatusChanged u a b \<and>
   (cluster (observedState u) = Some c \<and>
    status_State (Status c) = status_State (deriveClusterStatus u) \<and>
    Components (Status c) = Components (deriveClusterStatus u) \<longrightarrow>
      fst (updateClusterStatusIfChanged now u) = Inr None \<and>
      Update_calls (k8sClient (snd (updateClusterStatusIfChanged now u))) =
        Update_calls (k8sClient u))"
  by (simp add: isStatusChanged_unchanged_updater isStatusChanged_ignores_LastUpdateTime
        unchanged_no_update Info_def)

text \<open>The derived status of \<open>snapshot_ready\<close> under two different timestamps, and the
  pass on the snapshot where it is recorded with an earlier timestamp.\<close>

theorem timestamp_excluded_from_diff_witness:
  "LastUpdateTime ((deriveClusterStatus (example_updater snapshot_ready))
      \<lparr>LastUpdateTime := ''2019-09-30T12:00:00Z''\<rparr>) \<noteq>
   LastUpdateTime (deriveClusterStatus (example_updater snapshot_ready)) \<and>
   isStatusChanged (example_updater snapshot_ready)
     ((deriveClusterStatus (example_updater snapshot_ready))
        \<lparr>LastUpdateTime := ''2019-09-30T12:00:00Z''\<rparr>)
     (deriveClusterStatus (example_updater snapshot_ready)) =
     (Inr False, example_updater snapshot_ready) \<and>
   map_option (LastUpdateTime \<circ> Status)
     (cluster (observedState (example_updater snapshot_recorded))) =
     Some ''2019-09-30T12:00:00Z'' \<and>
   fst (updateClusterStatusIfChanged ''2019-10-01T00:00:00Z''
     (example_updater snapshot_recorded)) = Inr None \<and>
   Update_calls (k8sClient (snd (updateClusterStatusIfChanged ''2019-10-01T00:00:00Z''
     (example_updater snapshot_recorded)))) = []"
proof -
  let ?earlier = "(deriveClusterStatus (example_updater snapshot_ready))
      \<lparr>LastUpdateTime := ''2019-09-30T12:00:00Z''\<rparr>"
  have stamped: "LastUpdateTime ?earlier \<noteq>
      LastUpdateTime (deriveClusterStatus (example_updater snapshot_ready))"
    by (simp add: derive_LastUpdateTime)
  have recorded: "cluster (observedState (example_updater snapshot_recorded)) =
      Some (recorded_cluster ?earlier)"
    by (simp add: snapshot_recorded_def example_updater_def)
  have derived: "deriveClusterStatus (example_updater snapshot_recorded) =
      deriveClusterStatus (example_updater snapshot_ready)"
    by (rule derive_cong) (simp_all add: snapshot_recorded_def example_updater_def)
  have calls: "Update_calls (k8sClient (example_updater snapshot_recorded)) = []"
    by (simp add: example_updater_def example_client_def)
  from timestamp_excluded_from_diff
         [of ?earlier "deriveClusterStatus (example_updater snapshot_ready)"
             "example_updater snapshot_ready"]
       timestamp_excluded_from_diff
         [of ?earlier ?earlier "example_updater snapshot_recorded" _ _
             "recorded_cluster ?earlier" "''2019-10-01T00:00:00Z''"]
       stamped recorded derived calls
  show ?thesis by (simp add: recorded_cluster_def)
qed

text \<open>
  C6. For every snapshot with a job, the job slot of the derived status carries the job's
  name, and its state is \<open>Running\<close> if the active count is positive, else \<open>Failed\<close> if
  the failed count is positive, else \<open>Succeeded\<close> if the succeeded count is positive,
  else \<open>Unknown\<close>. A job with one active and one failed pod and none succeeded is
  \<open>Running\<close>.
\<close>

theorem derive_job_state_priority:
  "job (observedState u) = Some j \<Longrightarrow>
   Job (Components (deriveClusterStatus u)) =
     Some \<lparr>jobStatus_Name = job_Name j,
           jobStatus_State =
             (if 0 <s job_Active j then JobState_Running
              else if 0 <s job_Failed j then JobState_Failed
              else if 0 <s job_Succeeded j then JobState_Succeeded
              else JobState_Unknown)\<rparr> \<and>
   (job_Active j = 1 \<and> job_Failed j = 1 \<and> job_Succeeded j = 0 \<longrightarrow>
      map_option jobStatus_State (Job (Components (deriveClusterStatus u))) =
        Some JobState_Running)"
  by (simp add: derive_job_slot word_sless_alt)

theorem derive_job_state_priority_witness:
  "job (observedState (example_updater snapshot_ready)) = Some retried_job \<and>
   job_Active retried_job = 1 \<and> job_Failed retried_job = 1 \<and> job_Succeeded retried_job = 0 \<and>
   map_option jobStatus_State
     (Job (Components (deriveClusterStatus (example_updater snapshot_ready)))) =
     Some ''Running''"
proof -
  have observed: "job (observedState (example_updater snapshot_ready)) = Some retried_job"
    by (simp add: example_defs)
  have counts: "job_Active retried_job = 1 \<and> job_Failed retried_job = 1 \<and>
      job_Succeeded retried_job = 0"
    by (simp add: retried_job_def)
  from derive_job_state_priority [OF observed] observed counts
  show ?thesis by (simp add: JobState_Running_def word_sless_alt)
qed

text \<open>
  C7 (as stated, false on the code). The claim: an observed deployment is \<open>NotReady\<close> if
  its available or its ready replicas are fewer than its desired replicas. The code
  compares them with \<^verbatim>\<open>Status.Replicas\<close>, the replicas that the deployment reports to
  exist, and never reads the desired count of the spec: a JobManager deployment with
  three desired replicas whose status reports 0 replicas, 0 available and 0 ready is
  \<open>Ready\<close>, is counted, and the cluster is \<open>Running\<close>.
\<close>

theorem derive_ready_below_desired:
  "jmDeployment (observedState (example_updater snapshot_scaling_up)) =
     Some (example_deployment ''jm'' 3 0 0 0) \<and>
   deployment_Spec_Replicas (example_deployment ''jm'' 3 0 0 0) = Some 3 \<and>
   deployment_Status_AvailableReplicas (example_deployment ''jm'' 3 0 0 0) <s 3 \<and>
   deployment_Status_ReadyReplicas (example_deployment ''jm'' 3 0 0 0) <s 3 \<and>
   JobManagerDeployment (Components
     (deriveClusterStatus (example_updater snapshot_scaling_up))) =
     \<lparr>Name = ''jm'', State = ''Ready''\<rparr> \<and>
   snd (derive_jmDeployment (example_updater snapshot_scaling_up) (zero_Status, 0)) = 1 \<and>
   status_State (deriveClusterStatus (example_updater snapshot_scaling_up)) = ''Running''"
  by (simp add: derive_defs state_defs example_defs Let_def word_sless_alt)

text \<open>
  C7 (amended). For every snapshot, when the JobManager deployment (and likewise the
  TaskManager deployment) is observed, its derived state is \<open>NotReady\<close> if the available
  replicas or the ready replicas of its status are fewer than the replicas of its status
  (\<^verbatim>\<open>Status.Replicas\<close>), and \<open>Ready\<close> otherwise; its block of the derivation adds one to
  the count of ready components in the \<open>Ready\<close> case and leaves the count as it is in the
  \<open>NotReady\<close> case. The desired replicas of the deployment's spec do not enter: the
  derived status is the same for every value of them.
\<close>

theorem derive_deployment_state:
  "(jmDeployment (observedState u) = Some d \<longrightarrow>
      State (JobManagerDeployment (Components (deriveClusterStatus u))) =
        (if deployment_Status_AvailableReplicas d <s deployment_Status_Replicas d \<or>
            deployment_Status_ReadyReplicas d <s deployment_Status_Replicas d
         then ClusterComponentState_NotReady else ClusterComponentState_Ready) \<and>
      snd (derive_jmDeployment u (status, readyComponents)) =
        (if deployment_Status_AvailableReplicas d <s deployment_Status_Replicas d \<or>
            deployment_Status_ReadyReplicas d <s deployment_Status_Replicas d
         then readyComponents else readyComponents + 1) \<and>
      deriveClusterStatus (u\<lparr>observedState := (observedState u)
          \<lparr>jmDeployment := Some (d\<lparr>deployment_Spec_Replicas := desired\<rparr>)\<rparr>\<rparr>) =
        deriveClusterStatus u) \<and>
   (tmDeployment (observedState u) = Some d \<longrightarrow>
      State (TaskManagerDeployment (Components (deriveClusterStatus u))) =
        (if deployment_Status_AvailableReplicas d <s deployment_Status_Replicas d \<or>
            deployment_Status_ReadyReplicas d <s deployment_Status_Replicas d
         then ClusterComponentState_NotReady else ClusterComponentState_Ready) \<and>
      snd (derive_tmDeployment u (status, readyComponents)) =
        (if deployment_Status_AvailableReplicas d <s deployment_Status_Replicas d \<or>
            deployment_Status_ReadyReplicas d <s deployment_Status_Replicas d
         then readyComponents else readyComponents + 1) \<and>
      deriveClusterStatus (u\<lparr>observedState := (observedState u)
          \<lparr>tmDeployment := Some (d\<lparr>deployment_Spec_Replicas := desired\<rparr>)\<rparr>\<rparr>) =
        deriveClusterStatus u) \<and>
   ClusterComponentState_NotReady \<noteq> ClusterComponentState_Ready"
proof -
  have jm_spec: "jmDeployment (observedState u) = Some d \<longrightarrow>
      deriveClusterStatus (u\<lparr>observedState := (observedState u)
          \<lparr>jmDeployment := Some (d\<lparr>deployment_Spec_Replicas := desired\<rparr>)\<rparr>\<rparr>) =
        deriveClusterStatus u"
    by (simp add: derive_defs)
  have tm_spec: "tmDeployment (observedState u) = Some d \<longrightarrow>
      deriveClusterStatus (u\<lparr>observedState := (observedState u)
          \<lparr>tmDeployment := Some (d\<lparr>deployment_Spec_Replicas := desired\<rparr>)\<rparr>\<rparr>) =
        deriveClusterStatus u"
    by (simp add: derive_defs)
  have jm_state: "jmDeployment (observedState u) = Some d \<longrightarrow>
      State (JobManagerDeployment (Components (deriveClusterStatus u))) =
        (if deployment_Status_AvailableReplicas d <s deployment_Status_Replicas d \<or>
            deployment_Status_ReadyReplicas d <s deployment_Status_Replicas d
         then ClusterComponentState_NotReady else ClusterComponentState_Ready) \<and>
      snd (derive_jmDeployment u (status, readyComponents)) =
        (if deployment_Status_AvailableReplicas d <s deployment_Status_Replicas d \<or>
            deployment_Status_ReadyReplicas d <s deployment_Status_Replicas d
         then readyComponents else readyComponents + 1)"
    by (simp add: derive_jm_slot derive_jmDeployment_def Let_def)
  have tm_state: "tmDeployment (observedState u) = Some d \<longrightarrow>
      State (TaskManagerDeployment (Components (deriveClusterStatus u))) =
        (if deployment_Status_AvailableReplicas d <s deployment_Status_Replicas d \<or>
            deployment_Status_ReadyReplicas d <s deployment_Status_Replicas d
         then ClusterComponentState_NotReady else ClusterComponentState_Ready) \<and>
      snd (derive_tmDeployment u (status, readyComponents)) =
        (if deployment_Status_AvailableReplicas d <s deployment_Status_Replicas d \<or>
            deployment_Status_ReadyReplicas d <s deployment_Status_Replicas d
         then readyComponents else readyComponents + 1)"
    by (simp add: derive_tm_slot derive_tmDeployment_def Let_def)
  have names: "ClusterComponentState_NotReady \<noteq> ClusterComponentState_Ready"
    by (simp add: state_defs)
  from jm_spec tm_spec jm_state tm_state names show ?thesis by blast
qed

text \<open>The scenario of the specification: the JobManager deployment with 3 of 3 replicas
  is \<open>Ready\<close> and counted, the TaskManager deployment with 1 of 2 available is
  \<open>NotReady\<close> and not counted; and the derived status of the scenario is the same when
  five replicas are desired of the JobManager deployment.\<close>

theorem derive_deployment_state_witness:
  "jmDeployment (observedState (example_updater snapshot_worker_unready)) =
     Some (example_deployment ''jm'' 3 3 3 3) \<and>
   State (JobManagerDeployment (Components
     (deriveClusterStatus (example_updater snapshot_worker_unready)))) = ''Ready'' \<and>
   snd (derive_jmDeployment (example_updater snapshot_worker_unready) (zero_Status, 0)) = 1 \<and>
   deriveClusterStatus ((example_updater snapshot_worker_unready)
       \<lparr>observedState := (observedState (example_updater snapshot_worker_unready))
          \<lparr>jmDeployment := Some ((example_deployment ''jm'' 3 3 3 3)
             \<lparr>deployment_Spec_Replicas := Some 5\<rparr>)\<rparr>\<rparr>) =
     deriveClusterStatus (example_updater snapshot_worker_unready) \<and>
   tmDeployment (observedState (example_updater snapshot_worker_unready)) =
     Some (example_deployment ''tm'' 2 2 1 2) \<and>
   State (TaskManagerDeployment (Components
     (deriveClusterStatus (example_updater snapshot_worker_unready)))) = ''NotReady'' \<and>
   snd (derive_tmDeployment (example_updater snapshot_worker_unready) (zero_Status, 2)) = 2"
proof -
  have jm: "jmDeployment (observedState (example_updater snapshot_worker_unready)) =
      Some (example_deployment ''jm'' 3 3 3 3)"
    by (simp add: example_defs)
  have tm: "tmDeployment (observedState (example_updater snapshot_worker_unready)) =
      Some (example_deployment ''tm'' 2 2 1 2)"
    by (simp add: example_defs)
  have ready: "\<not> (deployment_Status_AvailableReplicas (example_deployment ''jm'' 3 3 3 3) <s
        deployment_Status_Replicas (example_deployment ''jm'' 3 3 3 3) \<or>
      deployment_Status_ReadyReplicas (example_deployment ''jm'' 3 3 3 3) <s
        deployment_Status_Replicas (example_deployment ''jm'' 3 3 3 3))"
    by (simp add: example_deployment_def word_sless_alt)
  have unready: "deployment_Status_AvailableReplicas (example_deployment ''tm'' 2 2 1 2) <s
        deployment_Status_Replicas (example_deployment ''tm'' 2 2 1 2)"
    by (simp add: example_deployment_def word_sless_alt)
  from derive_deployment_state
         [of "example_updater snapshot_worker_unready" "example_deployment ''jm'' 3 3 3 3"
             zero_Status 0 "Some 5"]
       derive_deployment_state
         [of "example_updater snapshot_worker_unready" "example_deployment ''tm'' 2 2 1 2"
             zero_Status 2 "Some 5"]
       jm tm ready unready
  show ?thesis by (simp add: state_defs)
qed

text \<open>
  C8. For every snapshot whose recorded status equals the freshly derived one in overall
  state and slots, \<^verbatim>\<open>updateClusterStatusIfChanged\<close> returns nil and issues no update
  call. Hence, when a pass has persisted a cluster object and the next pass observes
  that object with the same sub-resources, the next pass returns nil and issues no
  further call.
\<close>

theorem update_idempotent:
  "(cluster (observedState u) = Some c \<and>
    status_State (Status c) = status_State (deriveClusterStatus u) \<and>
    Components (Status c) = Components (deriveClusterStatus u) \<longrightarrow>
      fst (updateClusterStatusIfChanged now u) = Inr None \<and>
      Update_calls (k8sClient (snd (updateClusterStatusIfChanged now u))) =
        Update_calls (k8sClient u)) \<and>
   (Update_calls (k8sClient (snd (updateClusterStatusIfChanged now u))) =
      Update_calls (k8sClient u) @ [(ctx, persisted)] \<longrightarrow>
      fst (updateClusterStatusIfChanged now'
             ((snd (updateClusterStatusIfChanged now u))
               \<lparr>observedState := (observedState u)\<lparr>cluster := Some persisted\<rparr>\<rparr>)) = Inr None \<and>
      Update_calls (k8sClient (snd (updateClusterStatusIfChanged now'
             ((snd (updateClusterStatusIfChanged now u))
               \<lparr>observedState := (observedState u)\<lparr>cluster := Some persisted\<rparr>\<rparr>)))) =
        Update_calls (k8sClient u) @ [(ctx, persisted)])"
proof (intro conjI impI)
  assume same: "cluster (observedState u) = Some c \<and>
    status_State (Status c) = status_State (deriveClusterStatus u) \<and>
    Components (Status c) = Components (deriveClusterStatus u)"
  then have no_op: "updateClusterStatusIfChanged now u = (Inr None, Info u ''No status change'')"
    by (simp add: unchanged_no_update)
  show "fst (updateClusterStatusIfChanged now u) = Inr None"
    by (simp add: no_op)
  show "Update_calls (k8sClient (snd (updateClusterStatusIfChanged now u))) =
      Update_calls (k8sClient u)"
    by (simp add: no_op Info_def)
next
  define u1 where "u1 = snd (updateClusterStatusIfChanged now u)"
  define u2 where "u2 = u1\<lparr>observedState := (observedState u)\<lparr>cluster := Some persisted\<rparr>\<rparr>"
  assume "Update_calls (k8sClient (snd (updateClusterStatusIfChanged now u))) =
      Update_calls (k8sClient u) @ [(ctx, persisted)]"
  then have sent: "Update_calls (k8sClient u1) = Update_calls (k8sClient u) @ [(ctx, persisted)]"
    and persisted: "Status persisted = (deriveClusterStatus u)\<lparr>LastUpdateTime := now\<rparr>"
    by (simp_all add: u1_def update_sent_status)
  have derived: "deriveClusterStatus u2 = deriveClusterStatus u"
    by (rule derive_cong) (simp_all add: u2_def)
  have "cluster (observedState u2) = Some persisted"
    by (simp add: u2_def)
  then have no_op: "updateClusterStatusIfChanged now' u2 = (Inr None, Info u2 ''No status change'')"
    by (rule unchanged_no_update) (simp_all add: persisted derived)
  have calls: "Update_calls (k8sClient (Info u2 ''No status change'')) =
      Update_calls (k8sClient u) @ [(ctx, persisted)]"
    by (simp add: Info_def u2_def sent)
  show "fst (updateClusterStatusIfChanged now'
             ((snd (updateClusterStatusIfChanged now u))
               \<lparr>observedState := (observedState u)\<lparr>cluster := Some persisted\<rparr>\<rparr>)) = Inr None"
    using no_op unfolding u2_def u1_def by simp
  show "Update_calls (k8sClient (snd (updateClusterStatusIfChanged now'
             ((snd (updateClusterStatusIfChanged now u))
               \<lparr>observedState := (observedState u)\<lparr>cluster := Some persisted\<rparr>\<rparr>)))) =
        Update_calls (k8sClient u) @ [(ctx, persisted)]"
    using no_op calls unfolding u2_def u1_def by simp
qed

text \<open>The pass on \<open>snapshot_recorded\<close>, where the derived status is already recorded,
  persists nothing. The first pass on \<open>snapshot_ready\<close> persists one object; the second
  pass, on the snapshot that holds this object, persists nothing more.\<close>

theorem update_idempotent_witness:
  "fst (updateClusterStatusIfChanged ''2019-10-01T00:00:00Z''
     (example_updater snapshot_recorded)) = Inr None \<and>
   Update_calls (k8sClient (snd (updateClusterStatusIfChanged ''2019-10-01T00:00:00Z''
     (example_updater snapshot_recorded)))) = [] \<and>
   Update_calls (k8sClient (snd (updateClusterStatusIfChanged ''2019-10-01T00:00:00Z''
       (example_updater snapshot_ready)))) =
     Update_calls (k8sClient (example_updater snapshot_ready)) @
       [((), recorded_cluster ((deriveClusterStatus (example_updater snapshot_ready))
               \<lparr>LastUpdateTime := ''2019-10-01T00:00:00Z''\<rparr>))] \<and>
   fst (updateClusterStatusIfChanged ''2019-10-01T00:05:00Z''
          ((snd (updateClusterStatusIfChanged ''2019-10-01T00:00:00Z''
                  (example_updater snapshot_ready)))
             \<lparr>observedState := (observedState (example_updater snapshot_ready))
                \<lparr>cluster := Some (recorded_cluster
                    ((deriveClusterStatus (example_updater snapshot_ready))
                       \<lparr>LastUpdateTime := ''2019-10-01T00:00:00Z''\<rparr>))\<rparr>\<rparr>)) = Inr None \<and>
   length (Update_calls (k8sClient (snd (updateClusterStatusIfChanged ''2019-10-01T00:05:00Z''
          ((snd (updateClusterStatusIfChanged ''2019-10-01T00:00:00Z''
                  (example_updater snapshot_ready)))
             \<lparr>observedState := (observedState (example_updater snapshot_ready))
                \<lparr>cluster := Some (recorded_cluster
                    ((deriveClusterStatus (example_updater snapshot_ready))
                       \<lparr>LastUpdateTime := ''2019-10-01T00:00:00Z''\<rparr>))\<rparr>\<rparr>))))) = 1"
proof -
  let ?earlier = "(deriveClusterStatus (example_updater snapshot_ready))
      \<lparr>LastUpdateTime := ''2019-09-30T12:00:00Z''\<rparr>"
  have recorded: "cluster (observedState (example_updater snapshot_recorded)) =
      Some (recorded_cluster ?earlier)"
    by (simp add: snapshot_recorded_def example_updater_def)
  have derived: "deriveClusterStatus (example_updater snapshot_recorded) =
      deriveClusterStatus (example_updater snapshot_ready)"
    by (rule derive_cong) (simp_all add: snapshot_recorded_def example_updater_def)
  have before: "Update_calls (k8sClient (example_updater snapshot_ready)) = []"
    and before': "Update_calls (k8sClient (example_updater snapshot_recorded)) = []"
    by (simp_all add: example_updater_def example_client_def)
  have first: "Update_calls (k8sClient (snd (updateClusterStatusIfChanged ''2019-10-01T00:00:00Z''
       (example_updater snapshot_ready)))) =
     Update_calls (k8sClient (example_updater snapshot_ready)) @
       [((), recorded_cluster ((deriveClusterStatus (example_updater snapshot_ready))
               \<lparr>LastUpdateTime := ''2019-10-01T00:00:00Z''\<rparr>))]"
    using pass_on_snapshot_ready by (simp add: before)
  from update_idempotent
         [of "example_updater snapshot_recorded" "recorded_cluster ?earlier"
             "''2019-10-01T00:00:00Z''"]
       update_idempotent
         [of "example_updater snapshot_ready" _ "''2019-10-01T00:00:00Z''" "()"
             "recorded_cluster ((deriveClusterStatus (example_updater snapshot_ready))
                \<lparr>LastUpdateTime := ''2019-10-01T00:00:00Z''\<rparr>)" "''2019-10-01T00:05:00Z''"]
       recorded derived first
  show ?thesis by (simp add: before before' recorded_cluster_def)
qed

text \<open>
  C9. \<^verbatim>\<open>updateClusterStatusIfChanged\<close> leaves the observed state of the updater as it
  was: the timestamp is cleared on the local copy of the recorded status. A pass issues
  at most one update call, and the object it sends has the identity and the spec of the
  observed cluster and, as its status, the derived status stamped with the current time.
  \<^verbatim>\<open>updateClusterStatus\<close> itself sends the observed cluster with only its status
  replaced by the given one, and leaves the observed state as it was.
\<close>

theorem update_frame:
  "observedState (snd (updateClusterStatusIfChanged now u)) = observedState u \<and>
   (\<exists>sent. Update_calls (k8sClient (snd (updateClusterStatusIfChanged now u))) =
        Update_calls (k8sClient u) @ sent \<and> length sent \<le> 1 \<and>
      (\<forall>(ctx, obj) \<in> set sent. \<exists>c. cluster (observedState u) = Some c \<and>
         ObjectMeta obj = ObjectMeta c \<and> Spec obj = Spec c \<and>
         Status obj = (deriveClusterStatus u)\<lparr>LastUpdateTime := now\<rparr>)) \<and>
   (cluster (observedState u) = Some c \<longrightarrow>
      observedState (snd (updateClusterStatus u status)) = observedState u \<and>
      Update_calls (k8sClient (snd (updateClusterStatus u status))) =
        Update_calls (k8sClient u) @
          [(updater_context u, \<lparr>ObjectMeta = ObjectMeta c, Spec = Spec c, Status = status\<rparr>)])"
proof (intro conjI impI)
  show "observedState (snd (updateClusterStatusIfChanged now u)) = observedState u"
    by (simp add: updater_fields_kept)
  show "\<exists>sent. Update_calls (k8sClient (snd (updateClusterStatusIfChanged now u))) =
        Update_calls (k8sClient u) @ sent \<and> length sent \<le> 1 \<and>
      (\<forall>(ctx, obj) \<in> set sent. \<exists>c. cluster (observedState u) = Some c \<and>
         ObjectMeta obj = ObjectMeta c \<and> Spec obj = Spec c \<and>
         Status obj = (deriveClusterStatus u)\<lparr>LastUpdateTime := now\<rparr>)"
    by (rule update_sent)
next
  assume "cluster (observedState u) = Some c"
  then show "observedState (snd (updateClusterStatus u status)) = observedState u"
    by (simp add: updateClusterStatus_def Update_def cluster_DeepCopy_def)
next
  assume "cluster (observedState u) = Some c"
  then show "Update_calls (k8sClient (snd (updateClusterStatus u status))) =
        Update_calls (k8sClient u) @
          [(updater_context u, \<lparr>ObjectMeta = ObjectMeta c, Spec = Spec c, Status = status\<rparr>)]"
    by (cases c) (simp add: updateClusterStatus_def Update_def cluster_DeepCopy_def)
qed

text \<open>The pass on \<open>snapshot_ready\<close> persists a change: the recorded cluster, with its
  empty status, is still in the observed state afterwards, and the object sent by
  \<^verbatim>\<open>updateClusterStatus\<close> has the cluster's identity and spec.\<close>

theorem update_frame_witness:
  "cluster (observedState (example_updater snapshot_ready)) =
     Some (recorded_cluster zero_Status) \<and>
   Update_calls (k8sClient (snd (updateClusterStatusIfChanged ''2019-10-01T00:00:00Z''
       (example_updater snapshot_ready)))) \<noteq> [] \<and>
   cluster (observedState (snd (updateClusterStatusIfChanged ''2019-10-01T00:00:00Z''
       (example_updater snapshot_ready)))) = Some (recorded_cluster zero_Status) \<and>
   Update_calls (k8sClient (snd (updateClusterStatus (example_updater snapshot_ready)
       (deriveClusterStatus (example_updater snapshot_ready))))) =
     [((), \<lparr>ObjectMeta = ''session-1'', Spec = ''spec-1'',
            Status = deriveClusterStatus (example_updater snapshot_ready)\<rparr>)]"
proof -
  have observed: "cluster (observedState (example_updater snapshot_ready)) =
      Some (recorded_cluster zero_Status)"
    by (simp add: snapshot_ready_def example_updater_def)
  have before: "Update_calls (k8sClient (example_updater snapshot_ready)) = []"
    and ctx: "updater_context (example_updater snapshot_ready) = ()"
    by (simp_all add: example_updater_def example_client_def)
  have sent: "Update_calls (k8sClient (snd (updateClusterStatusIfChanged ''2019-10-01T00:00:00Z''
       (example_updater snapshot_ready)))) \<noteq> []"
    using pass_on_snapshot_ready by simp
  from update_frame
         [of "''2019-10-01T00:00:00Z''" "example_updater snapshot_ready"
             "recorded_cluster zero_Status"
             "deriveClusterStatus (example_updater snapshot_ready)"]
       observed before sent
  show ?thesis by (simp add: recorded_cluster_def)
qed

text \<open>
  C10. The derived status is a function of the observed state alone: two updaters with
  equal observed states, whatever their clients, contexts and logs, derive equal
  statuses, and the recorded cluster does not enter the derivation either. The derived
  status carries no timestamp; the current time is put in on the persistence path, since
  the status of a persisted object is the derived status with its timestamp set.
\<close>

theorem derive_deterministic:
  "(observedState u = observedState v \<longrightarrow> deriveClusterStatus u = deriveClusterStatus v) \<and>
   deriveClusterStatus (u\<lparr>observedState := (observedState u)\<lparr>cluster := recorded\<rparr>\<rparr>) =
     deriveClusterStatus u \<and>
   LastUpdateTime (deriveClusterStatus u) = '''' \<and>
   (Update_calls (k8sClient (snd (updateClusterStatusIfChanged now u))) =
      Update_calls (k8sClient u) @ [(ctx, persisted)] \<longrightarrow>
      Status persisted = (deriveClusterStatus u)\<lparr>LastUpdateTime := now\<rparr>)"
proof (intro conjI impI)
  assume "observedState u = observedState v"
  then show "deriveClusterStatus u = deriveClusterStatus v"
    by (intro derive_cong) simp_all
next
  show "deriveClusterStatus (u\<lparr>observedState := (observedState u)\<lparr>cluster := recorded\<rparr>\<rparr>) =
      deriveClusterStatus u"
    by (rule derive_cong) simp_all
  show "LastUpdateTime (deriveClusterStatus u) = ''''"
    by (rule derive_LastUpdateTime)
next
  assume "Update_calls (k8sClient (snd (updateClusterStatusIfChanged now u))) =
      Update_calls (k8sClient u) @ [(ctx, persisted)]"
  then show "Status persisted = (deriveClusterStatus u)\<lparr>LastUpdateTime := now\<rparr>"
    by (rule update_sent_status)
qed

text \<open>Two updaters on \<open>snapshot_ready\<close> that differ in their logs derive the same
  status, and the object that the pass on \<open>snapshot_ready\<close> persists carries the derived
  status with the time of the pass.\<close>

theorem derive_deterministic_witness:
  "log ((example_updater snapshot_ready)\<lparr>log := [''an earlier line'']\<rparr>) \<noteq>
     log (example_updater snapshot_ready) \<and>
   observedState ((example_updater snapshot_ready)\<lparr>log := [''an earlier line'']\<rparr>) =
     observedState (example_updater snapshot_ready) \<and>
   deriveClusterStatus ((example_updater snapshot_ready)\<lparr>log := [''an earlier line'']\<rparr>) =
     deriveClusterStatus (example_updater snapshot_ready) \<and>
   map (Status \<circ> snd)
     (Update_calls (k8sClient (snd (updateClusterStatusIfChanged ''2019-10-01T00:00:00Z''
        (example_updater snapshot_ready))))) =
     [(deriveClusterStatus (example_updater snapshot_ready))
        \<lparr>LastUpdateTime := ''2019-10-01T00:00:00Z''\<rparr>]"
proof -
  have logs: "log ((example_updater snapshot_ready)\<lparr>log := [''an earlier line'']\<rparr>) \<noteq>
      log (example_updater snapshot_ready)"
    by (simp add: example_updater_def)
  have same: "observedState ((example_updater snapshot_ready)\<lparr>log := [''an earlier line'']\<rparr>) =
      observedState (example_updater snapshot_ready)"
    by simp
  have before: "Update_calls (k8sClient (example_updater snapshot_ready)) = []"
    by (simp add: example_updater_def example_client_def)
  have sent: "Update_calls (k8sClient (snd (updateClusterStatusIfChanged ''2019-10-01T00:00:00Z''
       (example_updater snapshot_ready)))) =
     Update_calls (k8sClient (example_updater snapshot_ready)) @
       [((), recorded_cluster ((deriveClusterStatus (example_updater snapshot_ready))
               \<lparr>LastUpdateTime := ''2019-10-01T00:00:00Z''\<rparr>))]"
    using pass_on_snapshot_ready by (simp add: before)
  from derive_deterministic
         [of "(example_updater snapshot_ready)\<lparr>log := [''an earlier line'']\<rparr>"
             "example_updater snapshot_ready"]
       derive_deterministic
         [of "example_updater snapshot_ready" "example_updater snapshot_ready" _
             "''2019-10-01T00:00:00Z''" "()"
             "recorded_cluster ((deriveClusterStatus (example_updater snapshot_ready))
                \<lparr>LastUpdateTime := ''2019-10-01T00:00:00Z''\<rparr>)"]
       logs same sent
  show ?thesis by (simp add: before)
qed

end
